theory Spec2Isabelle
  imports Main
begin

section \<open>Identifier and role-name validation (postgresql\_backend/base.py)\<close>

text \<open>
  Python strings are modelled as \<^typ>\<open>string\<close>. The character classes of
  \<^verbatim>\<open>SQL_IDENTIFIER_RE = re.compile(r'^[_a-zA-Z][_a-zA-Z0-9]{,62}$')\<close> are ASCII ranges,
  read through the character code.
\<close>

definition in_range :: "char \<Rightarrow> char \<Rightarrow> char \<Rightarrow> bool" where
  "in_range lo hi c = ((of_char lo :: nat) \<le> of_char c \<and> (of_char c :: nat) \<le> of_char hi)"

text \<open>The class \<^verbatim>\<open>[_a-zA-Z]\<close>.\<close>

definition ident_first :: "char \<Rightarrow> bool" where
  "ident_first c =
     (c = CHR ''_'' \<or> in_range (CHR ''a'') (CHR ''z'') c \<or> in_range (CHR ''A'') (CHR ''Z'') c)"

text \<open>The class \<^verbatim>\<open>[_a-zA-Z0-9]\<close>.\<close>

definition ident_rest :: "char \<Rightarrow> bool" where
  "ident_rest c =
     (c = CHR ''_'' \<or> in_range (CHR ''a'') (CHR ''z'') c \<or> in_range (CHR ''A'') (CHR ''Z'') c
      \<or> in_range (CHR ''0'') (CHR ''9'') c)"

text \<open>
  \<^verbatim>\<open>$\<close> of Python's \<^verbatim>\<open>re\<close> without the MULTILINE flag: it matches at the end of the
  string, and also just before a newline that is the last character of the string.
\<close>

definition dollar :: "string \<Rightarrow> bool" where
  "dollar rest = (rest = [] \<or> rest = [CHR 0x0A])"

text \<open>
  \<^verbatim>\<open>SQL_IDENTIFIER_RE.match(s)\<close>, as a truth value: one character of the first class, then
  some number \<open>k\<close> of characters of the second class with \<open>k\<close> between 0 and 62
  (\<^verbatim>\<open>{,62}\<close>), then \<^verbatim>\<open>$\<close>. The matcher may try every \<open>k\<close>.
\<close>

definition SQL_IDENTIFIER_RE_match :: "string \<Rightarrow> bool" where
  "SQL_IDENTIFIER_RE_match s =
     (case s of
        [] \<Rightarrow> False
      | c # cs \<Rightarrow>
          ident_first c \<and>
          list_ex (\<lambda>k. k \<le> length cs \<and> list_all ident_rest (take k cs) \<and> dollar (drop k cs))
            [0 ..< 63])"

datatype error =
    ValidationError
  | ImproperlyConfigured
  | AttributeError
  | EngineError
  | DoesNotExist
  | MultipleObjectsReturned
  | CommandFailed

text \<open>\<^verbatim>\<open>_is_valid_identifier\<close> and \<^verbatim>\<open>_check_identifier\<close>.\<close>

definition is_valid_identifier :: "string \<Rightarrow> bool" where
  "is_valid_identifier identifier = SQL_IDENTIFIER_RE_match identifier"

definition check_identifier :: "string \<Rightarrow> error + unit" where
  "check_identifier identifier =
     (if \<not> is_valid_identifier identifier then Inl ValidationError else Inr ())"

text \<open>\<^verbatim>\<open>_is_valid_role_name\<close> (its body is \<^verbatim>\<open>return True\<close>) and \<^verbatim>\<open>_check_role_name\<close>.\<close>

definition is_valid_role_name :: "string \<Rightarrow> bool" where
  "is_valid_role_name name = True"

definition check_role_name :: "string \<Rightarrow> error + unit" where
  "check_role_name name =
     (if \<not> is_valid_role_name name then Inl ValidationError else Inr ())"

text \<open>
  The identifier rule in the specification's words: a leading letter or underscore, then
  up to 62 letters, digits or underscores, 63 characters in all.
\<close>

definition spec_identifier :: "string \<Rightarrow> bool" where
  "spec_identifier s =
     (case s of
        [] \<Rightarrow> False
      | c # cs \<Rightarrow> ident_first c \<and> list_all ident_rest cs \<and> length cs \<le> 62)"

section \<open>The connection wrapper (postgresql\_backend/base.py)\<close>

text \<open>
  Configuration read from outside the two source files: \<^verbatim>\<open>get_public_role_name()\<close> and
  \<^verbatim>\<open>get_limit_set_calls()\<close> of \<^verbatim>\<open>django_tenants.utils\<close>, and the setting
  \<^verbatim>\<open>PG_EXTRA_SEARCH_PATHS\<close> behind \<^verbatim>\<open>EXTRA_SEARCH_PATHS\<close>. They are parameters of
  the model.
\<close>

record config =
  public_role_name :: string
  limit_set_calls :: bool
  EXTRA_SEARCH_PATHS :: "string list"

text \<open>
  A tenant is an object with a \<^verbatim>\<open>role_name\<close>: a row of the tenant model, or the
  \<^verbatim>\<open>FakeTenant\<close> wrapper of base.py.
\<close>

datatype tenant = TenantModel string | FakeTenant string

fun tenant_role_name :: "tenant \<Rightarrow> string" where
  "tenant_role_name (TenantModel n) = n"
| "tenant_role_name (FakeTenant n) = n"

text \<open>A cursor object is known by its identity.\<close>

type_synonym cursor_id = nat

text \<open>
  The attributes of \<^verbatim>\<open>DatabaseWrapper\<close> that the two files read or write. \<open>None\<close> is
  Python's \<^verbatim>\<open>None\<close> for \<open>search_path_set\<close>, \<open>tenant\<close>, \<open>role_name\<close> and
  \<open>previous_cursor\<close> (\<^verbatim>\<open>_previous_cursor\<close>). The class body sets
  \<^verbatim>\<open>include_public_schema = True\<close>, which nothing reads; \<^verbatim>\<open>include_public_role\<close> exists
  only once \<^verbatim>\<open>set_tenant\<close> or \<^verbatim>\<open>set_role\<close> has assigned it, so \<open>None\<close> there is a
  missing attribute.
\<close>

record DatabaseWrapper =
  include_public_role :: "bool option"
  previous_cursor :: "cursor_id option"
  search_path_set :: "bool option"
  tenant :: "tenant option"
  role_name :: "string option"
  settings_dict :: "string \<rightharpoonup> string"

text \<open>Python truth values of an optional flag and of an optional string.\<close>

fun truthy_flag :: "bool option \<Rightarrow> bool" where
  "truthy_flag None = False"
| "truthy_flag (Some b) = b"

fun truthy_str :: "string option \<Rightarrow> bool" where
  "truthy_str None = False"
| "truthy_str (Some s) = (s \<noteq> [])"

definition set_settings_role :: "string \<Rightarrow> DatabaseWrapper \<Rightarrow> DatabaseWrapper" where
  "set_settings_role rn self = self\<lparr>settings_dict := (settings_dict self)(''ROLE'' \<mapsto> rn)\<rparr>"

definition set_tenant :: "tenant \<Rightarrow> bool \<Rightarrow> DatabaseWrapper \<Rightarrow> DatabaseWrapper" where
  "set_tenant t include_public self =
     (let self = self\<lparr>tenant := Some t\<rparr>;
          self = self\<lparr>role_name := Some (tenant_role_name t)\<rparr>;
          self = self\<lparr>include_public_role := Some include_public\<rparr>;
          self = set_settings_role (the (role_name self)) self
      in self\<lparr>search_path_set := Some False\<rparr>)"

definition set_role :: "string \<Rightarrow> bool \<Rightarrow> DatabaseWrapper \<Rightarrow> DatabaseWrapper" where
  "set_role rn include_public self =
     (let self = self\<lparr>tenant := Some (FakeTenant rn)\<rparr>;
          self = self\<lparr>role_name := Some rn\<rparr>;
          self = self\<lparr>include_public_role := Some include_public\<rparr>;
          self = set_settings_role rn self
      in self\<lparr>search_path_set := Some False\<rparr>)"

definition set_role_to_public :: "config \<Rightarrow> DatabaseWrapper \<Rightarrow> DatabaseWrapper" where
  "set_role_to_public cfg self =
     (let self = self\<lparr>tenant := Some (FakeTenant (public_role_name cfg))\<rparr>;
          self = self\<lparr>role_name := Some (public_role_name cfg)\<rparr>;
          self = set_settings_role (public_role_name cfg) self
      in self\<lparr>search_path_set := Some False\<rparr>)"

text \<open>
  \<^verbatim>\<open>__init__\<close>: the three assignments, the base class's constructor (which stores the
  settings dictionary), then \<^verbatim>\<open>self.set_role_to_public()\<close>.
\<close>

definition init :: "config \<Rightarrow> (string \<rightharpoonup> string) \<Rightarrow> DatabaseWrapper" where
  "init cfg settings =
     set_role_to_public cfg
       \<lparr>include_public_role = None, previous_cursor = None, search_path_set = None,
        tenant = None, role_name = None, settings_dict = settings\<rparr>"

definition close :: "DatabaseWrapper \<Rightarrow> DatabaseWrapper" where
  "close self = self\<lparr>search_path_set := Some False\<rparr>"

text \<open>\<^verbatim>\<open>','.join(xs)\<close>.\<close>

fun join :: "string \<Rightarrow> string list \<Rightarrow> string" where
  "join sep [] = []"
| "join sep [x] = x"
| "join sep (x # y # ys) = x @ sep @ join sep (y # ys)"

text \<open>\<^verbatim>\<open>'SET search_path = {0}'.format(','.join(search_paths))\<close>.\<close>

definition directive :: "string list \<Rightarrow> string" where
  "directive search_paths = ''SET search_path = '' @ join '','' search_paths"

text \<open>
  What one call of \<^verbatim>\<open>_cursor\<close> meets outside the wrapper: its argument \<open>name\<close>, the
  cursor the base class's \<^verbatim>\<open>_cursor\<close> returns, the cursor \<^verbatim>\<open>self.connection.cursor()\<close>
  would return, and what \<^verbatim>\<open>execute\<close> does with the directive. The \<^verbatim>\<open>except\<close> clause
  catches \<^verbatim>\<open>django.db.utils.DatabaseError\<close> and \<^verbatim>\<open>psycopg2.InternalError\<close>; any other
  exception leaves \<^verbatim>\<open>_cursor\<close>.
\<close>

datatype exec_outcome = ExecOk | ExecDatabaseError | ExecInternalError | ExecOtherError

record cursor_env =
  cursor_name :: "string option"
  super_cursor :: cursor_id
  connection_cursor :: cursor_id
  execute_outcome :: exec_outcome

text \<open>What a call does to the engine: statements executed on a cursor, cursors closed.\<close>

datatype event = Execute cursor_id string | Close cursor_id

text \<open>The condition of the \<^verbatim>\<open>if\<close> that guards the directive (line 124).\<close>

definition directive_due :: "config \<Rightarrow> DatabaseWrapper \<Rightarrow> cursor_id \<Rightarrow> bool" where
  "directive_due cfg self cursor =
     ((\<not> limit_set_calls cfg) \<or> \<not> truthy_flag (search_path_set self)
      \<or> previous_cursor self \<noteq> Some cursor)"

text \<open>
  Lines 131 to 145: the check of \<^verbatim>\<open>role_name\<close>, \<^verbatim>\<open>_check_role_name\<close>, and the list
  \<^verbatim>\<open>search_paths\<close>. Reading \<^verbatim>\<open>self.include_public_role\<close> when it was never assigned
  raises \<^verbatim>\<open>AttributeError\<close>.
\<close>

definition search_paths_of :: "config \<Rightarrow> DatabaseWrapper \<Rightarrow> error + string list" where
  "search_paths_of cfg self =
     (if \<not> truthy_str (role_name self) then Inl ImproperlyConfigured
      else
        let rn = the (role_name self) in
        case check_role_name rn of
          Inl e \<Rightarrow> Inl e
        | Inr _ \<Rightarrow>
            let public_role_name = public_role_name cfg in
            if rn = public_role_name then Inr ([public_role_name] @ EXTRA_SEARCH_PATHS cfg)
            else
              (case include_public_role self of
                 None \<Rightarrow> Inl AttributeError
               | Some True \<Rightarrow> Inr ([rn, public_role_name] @ EXTRA_SEARCH_PATHS cfg)
               | Some False \<Rightarrow> Inr ([rn] @ EXTRA_SEARCH_PATHS cfg)))"

text \<open>
  \<^verbatim>\<open>DatabaseWrapper._cursor\<close>. The result is what the call returns or raises, the wrapper
  after the call (assignments made before an exception stay), and the events of the call.
\<close>

definition wrapper_cursor ::
  "config \<Rightarrow> cursor_env \<Rightarrow> DatabaseWrapper \<Rightarrow> (error + cursor_id) \<times> DatabaseWrapper \<times> event list"
where
  "wrapper_cursor cfg env self =
     (let cursor = super_cursor env in
      if directive_due cfg self cursor then
        let self = self\<lparr>previous_cursor := Some cursor\<rparr> in
        case search_paths_of cfg self of
          Inl e \<Rightarrow> (Inl e, self, [])
        | Inr search_paths \<Rightarrow>
            let cursor_for_search_path =
                  (if truthy_str (cursor_name env) then connection_cursor env else cursor);
                stmt = Execute cursor_for_search_path (directive search_paths)
            in
            (case execute_outcome env of
               ExecOtherError \<Rightarrow> (Inl EngineError, self, [stmt])
             | ExecOk \<Rightarrow>
                 (Inr cursor, self\<lparr>search_path_set := Some True\<rparr>,
                  stmt # (if truthy_str (cursor_name env) then [Close cursor_for_search_path] else []))
             | _ \<Rightarrow>
                 (Inr cursor, self\<lparr>search_path_set := Some False\<rparr>,
                  stmt # (if truthy_str (cursor_name env) then [Close cursor_for_search_path] else [])))
      else (Inr cursor, self, []))"

text \<open>The directives of a list of events, each with the cursor it was executed on.\<close>

fun issued :: "event list \<Rightarrow> (cursor_id \<times> string) list" where
  "issued [] = []"
| "issued (Execute h sql # evs) = (h, sql) # issued evs"
| "issued (Close h # evs) = issued evs"

text \<open>The directives one call of \<^verbatim>\<open>_cursor\<close> issued.\<close>

definition directives_issued ::
  "(error + cursor_id) \<times> DatabaseWrapper \<times> event list \<Rightarrow> string list" where
  "directives_issued res = map snd (issued (snd (snd res)))"

text \<open>
  A caller making one \<^verbatim>\<open>_cursor\<close> call after another on the same wrapper, whatever each
  call returns or raises: the results and events of the calls, and the wrapper at the end.
\<close>

fun cursor_calls ::
  "config \<Rightarrow> cursor_env list \<Rightarrow> DatabaseWrapper
     \<Rightarrow> ((error + cursor_id) \<times> event list) list \<times> DatabaseWrapper"
where
  "cursor_calls cfg [] self = ([], self)"
| "cursor_calls cfg (env # envs) self =
     (case wrapper_cursor cfg env self of
        (r, self', evs) \<Rightarrow>
          (case cursor_calls cfg envs self' of
             (rs, self'') \<Rightarrow> ((r, evs) # rs, self'')))"

section \<open>Running a command over the tenants (management/commands/\_\_init\_\_.py)\<close>

text \<open>
  The options \<^verbatim>\<open>handle\<close> and \<^verbatim>\<open>execute_command\<close> read: \<^verbatim>\<open>options['role_name']\<close>,
  \<^verbatim>\<open>options['skip_public']\<close> and \<^verbatim>\<open>options.get('verbosity')\<close>.
\<close>

record options =
  opt_role_name :: "string option"
  skip_public :: bool
  verbosity :: int

text \<open>
  What a run shows outside: the lines printed, and each \<^verbatim>\<open>call_command\<close> with the
  command's name and the tenant the connection holds at that moment.
\<close>

datatype cmd_event = Print string | CallCommand string "tenant option"

text \<open>
  The wrapped command is outside the two files: \<open>job_raises\<close> says, from the connection it
  runs on, whether \<^verbatim>\<open>call_command\<close> raises. The command leaves the connection's routing
  as it finds it.
\<close>

type_synonym job = "DatabaseWrapper \<Rightarrow> bool"

text \<open>
  \<^verbatim>\<open>execute_command\<close>. The \<^verbatim>\<open>style\<close> functions colour the text for a terminal and are
  left out; \<^verbatim>\<open>connection.set_tenant(tenant)\<close> takes the default \<^verbatim>\<open>include_public=True\<close>.
\<close>

definition execute_command ::
  "job \<Rightarrow> tenant \<Rightarrow> string \<Rightarrow> options \<Rightarrow> DatabaseWrapper
     \<Rightarrow> (error + unit) \<times> DatabaseWrapper \<times> cmd_event list"
where
  "execute_command job_raises t command_name opts connection =
     (let printed =
            (if verbosity opts \<ge> 1 then
               [Print [],
                Print (''=== Switching to schema '' @ [CHR 0x27] @ tenant_role_name t
                       @ [CHR 0x27] @ '' then calling '' @ command_name @ '':'')]
             else []);
          connection = set_tenant t True connection;
          called = printed @ [CallCommand command_name (tenant connection)]
      in if job_raises connection then (Inl CommandFailed, connection, called)
         else (Inr (), connection, called))"

text \<open>
  \<^verbatim>\<open>get_tenant_model().objects.all()\<close> is the list \<open>directory\<close>;
  \<^verbatim>\<open>objects.get(role_name=rn)\<close> is Django's lookup of the one row with that name.
\<close>

definition objects_get :: "tenant list \<Rightarrow> string \<Rightarrow> error + tenant" where
  "objects_get directory rn =
     (case filter (\<lambda>t. tenant_role_name t = rn) directory of
        [] \<Rightarrow> Inl DoesNotExist
      | [t] \<Rightarrow> Inr t
      | _ \<Rightarrow> Inl MultipleObjectsReturned)"

text \<open>
  Calling a method of the connection by name, with no argument. The table holds the
  methods that \<^verbatim>\<open>DatabaseWrapper\<close> of base.py defines and that take no argument
  (\<^verbatim>\<open>get_role\<close> and \<^verbatim>\<open>get_tenant\<close> only read); a name the object does not have raises
  \<^verbatim>\<open>AttributeError\<close>. The methods inherited from Django's PostgreSQL backend are not
  listed: they do not touch the routing attributes, and none of them is called here.
\<close>

definition wrapper_methods :: "(string \<times> (config \<Rightarrow> DatabaseWrapper \<Rightarrow> DatabaseWrapper)) list" where
  "wrapper_methods =
     [(''close'', \<lambda>cfg. close),
      (''set_role_to_public'', set_role_to_public),
      (''get_role'', \<lambda>cfg self. self),
      (''get_tenant'', \<lambda>cfg self. self)]"

definition call_method :: "string \<Rightarrow> config \<Rightarrow> DatabaseWrapper \<Rightarrow> error + DatabaseWrapper" where
  "call_method name cfg connection =
     (case map_of wrapper_methods name of
        None \<Rightarrow> Inl AttributeError
      | Some m \<Rightarrow> Inr (m cfg connection))"

text \<open>The \<^verbatim>\<open>for\<close> loop of \<^verbatim>\<open>handle\<close>: an exception of \<^verbatim>\<open>execute_command\<close> ends it.\<close>

fun for_tenants ::
  "config \<Rightarrow> job \<Rightarrow> string \<Rightarrow> options \<Rightarrow> tenant list \<Rightarrow> DatabaseWrapper
     \<Rightarrow> (error + unit) \<times> DatabaseWrapper \<times> cmd_event list"
where
  "for_tenants cfg job_raises command_name opts [] connection = (Inr (), connection, [])"
| "for_tenants cfg job_raises command_name opts (t # ts) connection =
     (if \<not> (skip_public opts \<and> tenant_role_name t = public_role_name cfg) then
        (case execute_command job_raises t command_name opts connection of
           (Inl e, connection', evs) \<Rightarrow> (Inl e, connection', evs)
         | (Inr _, connection', evs) \<Rightarrow>
             (case for_tenants cfg job_raises command_name opts ts connection' of
                (r, connection'', evs') \<Rightarrow> (r, connection'', evs @ evs')))
      else for_tenants cfg job_raises command_name opts ts connection)"

text \<open>\<^verbatim>\<open>BaseTenantCommand.handle\<close>.\<close>

definition handle ::
  "config \<Rightarrow> job \<Rightarrow> string \<Rightarrow> tenant list \<Rightarrow> options \<Rightarrow> DatabaseWrapper
     \<Rightarrow> (error + unit) \<times> DatabaseWrapper \<times> cmd_event list"
where
  "handle cfg job_raises COMMAND_NAME directory opts connection =
     (if truthy_str (opt_role_name opts) then
        (case call_method ''set_schema_to_public'' cfg connection of
           Inl e \<Rightarrow> (Inl e, connection, [])
         | Inr connection \<Rightarrow>
             (case objects_get directory (the (opt_role_name opts)) of
                Inl e \<Rightarrow> (Inl e, connection, [])
              | Inr t \<Rightarrow> execute_command job_raises t COMMAND_NAME opts connection))
      else for_tenants cfg job_raises COMMAND_NAME opts directory connection)"

text \<open>The tenants the command was called on, in order.\<close>

fun invoked :: "cmd_event list \<Rightarrow> tenant option list" where
  "invoked [] = []"
| "invoked (CallCommand c t # evs) = t # invoked evs"
| "invoked (Print l # evs) = invoked evs"

section \<open>Concrete inputs\<close>

text \<open>
  The configuration of the specification's example (shared role \<open>public\<close>, one extra search
  path, caching of the directive on), a call of \<^verbatim>\<open>_cursor\<close> with no name whose directive
  the engine accepts, and a wrapper as its constructor leaves it.
\<close>

definition example_config :: config where
  "example_config =
     \<lparr>public_role_name = ''public'', limit_set_calls = True,
      EXTRA_SEARCH_PATHS = [''shared_extra'']\<rparr>"

definition example_env :: "cursor_id \<Rightarrow> exec_outcome \<Rightarrow> cursor_env" where
  "example_env c outcome =
     \<lparr>cursor_name = None, super_cursor = c, connection_cursor = 100, execute_outcome = outcome\<rparr>"

definition example_wrapper :: DatabaseWrapper where
  "example_wrapper = init example_config Map.empty"

text \<open>
  That wrapper after one call of \<^verbatim>\<open>_cursor\<close> on cursor 1 whose directive the engine
  accepted, and a call with a name, on cursor 2, whose directive fails on the raw cursor
  of \<^verbatim>\<open>self.connection.cursor()\<close> with an exception outside the two caught classes.
\<close>

definition applied_wrapper :: DatabaseWrapper where
  "applied_wrapper =
     fst (snd (wrapper_cursor example_config (example_env 1 ExecOk) example_wrapper))"

definition rejecting_named_env :: cursor_env where
  "rejecting_named_env =
     \<lparr>cursor_name = Some ''named'', super_cursor = 2, connection_cursor = 100,
      execute_outcome = ExecOtherError\<rparr>"

section \<open>Identifier validation: what the pattern accepts\<close>

lemma list_ex_upt: "list_ex P [0 ..< n] \<longleftrightarrow> (\<exists>k<n. P k)"
  by (auto simp: list_ex_iff)

lemma newline_not_ident_rest: "\<not> ident_rest (CHR 0x0A)"
  by (simp add: ident_rest_def in_range_def)

text \<open>Every string that is an identifier in the specification's sense is accepted.\<close>

lemma spec_identifier_valid:
  assumes "spec_identifier s"
  shows "is_valid_identifier s"
proof -
  from assms obtain c cs where s: "s = c # cs" and c: "ident_first c"
    and cs: "list_all ident_rest cs" and len: "length cs \<le> 62"
    by (auto simp: spec_identifier_def split: list.splits)
  have "length cs < 63 \<and> length cs \<le> length cs \<and> list_all ident_rest (take (length cs) cs)
        \<and> dollar (drop (length cs) cs)"
    using cs len by (simp add: dollar_def)
  then have "list_ex (\<lambda>k. k \<le> length cs \<and> list_all ident_rest (take k cs) \<and> dollar (drop k cs))
               [0 ..< 63]"
    unfolding list_ex_upt by blast
  with s c show ?thesis
    by (simp add: is_valid_identifier_def SQL_IDENTIFIER_RE_match_def)
qed

text \<open>So is every such string with one newline after it.\<close>

lemma spec_identifier_newline_valid:
  assumes "spec_identifier t"
  shows "is_valid_identifier (t @ [CHR 0x0A])"
proof -
  from assms obtain c cs where t: "t = c # cs" and c: "ident_first c"
    and cs: "list_all ident_rest cs" and len: "length cs \<le> 62"
    by (auto simp: spec_identifier_def split: list.splits)
  let ?r = "cs @ [CHR 0x0A]"
  have "length cs < 63 \<and> length cs \<le> length ?r \<and> list_all ident_rest (take (length cs) ?r)
        \<and> dollar (drop (length cs) ?r)"
    using cs len by (simp add: dollar_def)
  then have "list_ex (\<lambda>k. k \<le> length ?r \<and> list_all ident_rest (take k ?r) \<and> dollar (drop k ?r))
               [0 ..< 63]"
    unfolding list_ex_upt by blast
  with t c show ?thesis
    by (simp add: is_valid_identifier_def SQL_IDENTIFIER_RE_match_def)
qed

text \<open>And nothing else is accepted.\<close>

lemma valid_identifier_cases:
  assumes "is_valid_identifier s"
  shows "spec_identifier s \<or> (\<exists>t. s = t @ [CHR 0x0A] \<and> spec_identifier t)"
proof -
  from assms obtain c cs k where s: "s = c # cs" and c: "ident_first c"
    and k: "k < 63" "k \<le> length cs" "list_all ident_rest (take k cs)" "dollar (drop k cs)"
    by (auto simp: is_valid_identifier_def SQL_IDENTIFIER_RE_match_def list_ex_upt
          split: list.splits)
  from k(4) consider "drop k cs = []" | "drop k cs = [CHR 0x0A]"
    by (auto simp: dollar_def)
  then show ?thesis
  proof cases
    case 1
    then have le: "length cs \<le> k" by simp
    then have "take k cs = cs" by simp
    with k le have "list_all ident_rest cs" "length cs \<le> 62" by simp_all
    with s c show ?thesis by (simp add: spec_identifier_def)
  next
    case 2
    have "cs = take k cs @ [CHR 0x0A]"
      using 2 append_take_drop_id [of k cs] by simp
    moreover have "spec_identifier (c # take k cs)"
      using c k by (simp add: spec_identifier_def)
    ultimately show ?thesis using s by (metis append_Cons)
  qed
qed

text \<open>
  C3. The pattern accepts every identifier of the specification's rule
  (\<open>spec_identifier_valid\<close>), but \<^verbatim>\<open>$\<close> also matches before a final newline: the
  two-character string of \<open>a\<close> and a newline is accepted although it contains whitespace,
  and so is the 64-character string of 63 letters \<open>a\<close> and a newline although it is longer
  than 63 characters.
\<close>

theorem is_valid_identifier_trailing_newline:
  "is_valid_identifier [CHR ''a'', CHR 0x0A]
   \<and> is_valid_identifier (replicate 63 (CHR ''a'') @ [CHR 0x0A])
   \<and> length (replicate 63 (CHR ''a'') @ [CHR 0x0A]) = 64"
proof -
  have a: "ident_first (CHR ''a'')" and b: "ident_rest (CHR ''a'')"
    by (simp_all add: ident_first_def ident_rest_def in_range_def)
  have "spec_identifier [CHR ''a'']"
    using a by (simp add: spec_identifier_def)
  then have one: "is_valid_identifier ([CHR ''a''] @ [CHR 0x0A])"
    by (rule spec_identifier_newline_valid)
  have "replicate 63 (CHR ''a'') = CHR ''a'' # replicate 62 (CHR ''a'')"
    by (simp add: numeral_eq_Suc)
  then have "spec_identifier (replicate 63 (CHR ''a''))"
    using a b by (simp add: spec_identifier_def list_all_iff)
  then have two: "is_valid_identifier (replicate 63 (CHR ''a'') @ [CHR 0x0A])"
    by (rule spec_identifier_newline_valid)
  from one two show ?thesis by simp
qed

text \<open>
  C7. Role-name validation lets every string through: \<open>is_valid_role_name\<close> is true of
  every name and \<open>check_role_name\<close> raises nothing.
\<close>

theorem role_name_validation_permissive:
  "is_valid_role_name name \<and> check_role_name name = Inr ()"
  by (simp add: is_valid_role_name_def check_role_name_def)

section \<open>The connection wrapper: selecting a role\<close>

text \<open>
  C10. Each of \<open>set_tenant\<close>, \<open>set_role\<close> and \<open>set_role_to_public\<close> leaves the settings
  dictionary as it was but for the key \<open>ROLE\<close>, which now holds the role name selected.
\<close>

theorem setters_write_settings_role:
  "settings_dict (set_tenant t include_public self)
     = (settings_dict self)(''ROLE'' \<mapsto> tenant_role_name t)
   \<and> role_name (set_tenant t include_public self) = Some (tenant_role_name t)
   \<and> settings_dict (set_role rn include_public self) = (settings_dict self)(''ROLE'' \<mapsto> rn)
   \<and> role_name (set_role rn include_public self) = Some rn
   \<and> settings_dict (set_role_to_public cfg self)
     = (settings_dict self)(''ROLE'' \<mapsto> public_role_name cfg)
   \<and> role_name (set_role_to_public cfg self) = Some (public_role_name cfg)"
  by (simp add: set_tenant_def set_role_def set_role_to_public_def set_settings_role_def Let_def)

section \<open>The connection wrapper: one call of the cursor method\<close>

lemma search_paths_of_cong:
  "role_name a = role_name b \<Longrightarrow> include_public_role a = include_public_role b \<Longrightarrow>
     search_paths_of cfg a = search_paths_of cfg b"
  by (simp add: search_paths_of_def Let_def cong: sum.case_cong option.case_cong if_cong)

lemma search_paths_of_previous_cursor:
  "search_paths_of cfg (self\<lparr>previous_cursor := c\<rparr>) = search_paths_of cfg self"
  by (rule search_paths_of_cong) simp_all

lemma wrapper_cursor_hit:
  "\<not> directive_due cfg self (super_cursor env) \<Longrightarrow>
     wrapper_cursor cfg env self = (Inr (super_cursor env), self, [])"
  by (simp add: wrapper_cursor_def)

lemma wrapper_cursor_raises:
  "directive_due cfg self (super_cursor env) \<Longrightarrow> search_paths_of cfg self = Inl err \<Longrightarrow>
     wrapper_cursor cfg env self
       = (Inl err, self\<lparr>previous_cursor := Some (super_cursor env)\<rparr>, [])"
  by (simp add: wrapper_cursor_def search_paths_of_previous_cursor Let_def)

lemma directives_issued_cases:
  "directives_issued (wrapper_cursor cfg env self) =
     (if directive_due cfg self (super_cursor env) then
        (case search_paths_of cfg self of Inl e \<Rightarrow> [] | Inr ps \<Rightarrow> [directive ps])
      else [])"
  by (cases "execute_outcome env")
     (simp_all add: wrapper_cursor_def directives_issued_def search_paths_of_previous_cursor
        Let_def split: sum.splits)

lemma wrapper_cursor_issues:
  "directive_due cfg self (super_cursor env) \<Longrightarrow> search_paths_of cfg self = Inr ps \<Longrightarrow>
     directives_issued (wrapper_cursor cfg env self) = [directive ps]"
  by (simp add: directives_issued_cases)

lemma wrapper_cursor_previous:
  "previous_cursor (fst (snd (wrapper_cursor cfg env self))) = Some (super_cursor env)"
  by (cases "execute_outcome env")
     (auto simp: wrapper_cursor_def directive_due_def Let_def split: sum.splits)

lemma wrapper_cursor_frame:
  "role_name (fst (snd (wrapper_cursor cfg env self))) = role_name self
   \<and> include_public_role (fst (snd (wrapper_cursor cfg env self))) = include_public_role self"
  by (cases "execute_outcome env")
     (auto simp: wrapper_cursor_def Let_def split: sum.splits)

lemma search_paths_of_after_call:
  "search_paths_of cfg (fst (snd (wrapper_cursor cfg env self))) = search_paths_of cfg self"
  by (rule search_paths_of_cong) (simp_all add: wrapper_cursor_frame)

text \<open>After every operation that selects a role, and after \<open>close\<close>, a directive is due.\<close>

lemma due_after_setters:
  "directive_due cfg (set_tenant t inc self) c"
  "directive_due cfg (set_role rn inc self) c"
  "directive_due cfg (set_role_to_public cfg self) c"
  "directive_due cfg (close self) c"
  "directive_due cfg (init cfg settings) c"
  by (simp_all add: directive_due_def set_tenant_def set_role_def set_role_to_public_def
        set_settings_role_def close_def init_def Let_def)

text \<open>
  C1, as the code has it. With a non-empty shared role name, the call of the cursor method
  after \<open>set_role_to_public\<close> computes the shared name followed by the extra search paths
  and issues the directive for that list. After \<open>set_role r True\<close>, for a non-empty \<open>r\<close>
  other than the shared name, the list is \<open>r\<close>, the shared name, then the extra paths; after
  \<open>set_role r' False\<close>, for a non-empty \<open>r'\<close>, it is \<open>r'\<close> then the extra paths.
\<close>

theorem search_paths_after_selection:
  assumes "public_role_name cfg \<noteq> []" and "r \<noteq> []" and "r \<noteq> public_role_name cfg"
    and "r' \<noteq> []"
  shows "search_paths_of cfg (set_role_to_public cfg self)
           = Inr ([public_role_name cfg] @ EXTRA_SEARCH_PATHS cfg)
       \<and> directives_issued (wrapper_cursor cfg env (set_role_to_public cfg self))
           = [directive ([public_role_name cfg] @ EXTRA_SEARCH_PATHS cfg)]
       \<and> search_paths_of cfg (set_role r True self)
           = Inr ([r, public_role_name cfg] @ EXTRA_SEARCH_PATHS cfg)
       \<and> directives_issued (wrapper_cursor cfg env (set_role r True self))
           = [directive ([r, public_role_name cfg] @ EXTRA_SEARCH_PATHS cfg)]
       \<and> search_paths_of cfg (set_role r' False self) = Inr ([r'] @ EXTRA_SEARCH_PATHS cfg)
       \<and> directives_issued (wrapper_cursor cfg env (set_role r' False self))
           = [directive ([r'] @ EXTRA_SEARCH_PATHS cfg)]"
proof -
  have a: "search_paths_of cfg (set_role_to_public cfg self)
           = Inr ([public_role_name cfg] @ EXTRA_SEARCH_PATHS cfg)"
    using assms(1)
    by (simp add: search_paths_of_def set_role_to_public_def set_settings_role_def
          check_role_name_def is_valid_role_name_def Let_def)
  have b: "search_paths_of cfg (set_role r True self)
           = Inr ([r, public_role_name cfg] @ EXTRA_SEARCH_PATHS cfg)"
    using assms(2,3)
    by (simp add: search_paths_of_def set_role_def set_settings_role_def
          check_role_name_def is_valid_role_name_def Let_def)
  have c: "search_paths_of cfg (set_role r' False self) = Inr ([r'] @ EXTRA_SEARCH_PATHS cfg)"
    using assms(4)
    by (simp add: search_paths_of_def set_role_def set_settings_role_def
          check_role_name_def is_valid_role_name_def Let_def)
  show ?thesis
    using a b c by (simp add: wrapper_cursor_issues due_after_setters)
qed

theorem search_paths_after_selection_witness:
  "public_role_name example_config \<noteq> [] \<and> ''acme'' \<noteq> []
   \<and> ''acme'' \<noteq> public_role_name example_config
   \<and> directives_issued
       (wrapper_cursor example_config (example_env 1 ExecOk)
          (set_role_to_public example_config example_wrapper))
     = [''SET search_path = public,shared_extra'']
   \<and> search_paths_of example_config (set_role ''acme'' True example_wrapper)
     = Inr [''acme'', ''public'', ''shared_extra'']
   \<and> directives_issued
       (wrapper_cursor example_config (example_env 1 ExecOk)
          (set_role ''acme'' True example_wrapper))
     = [''SET search_path = acme,public,shared_extra'']
   \<and> search_paths_of example_config (set_role ''acme'' False example_wrapper)
     = Inr [''acme'', ''shared_extra'']"
  using search_paths_after_selection
          [of example_config "''acme''" "''acme''" example_wrapper "example_env 1 ExecOk"]
  by (simp add: example_config_def directive_def)

text \<open>
  With the shared role \<open>public\<close> and the extra path \<open>shared_extra\<close>, the list computed after
  \<open>set_role_to_public\<close> is not \<open>public\<close> alone: the extra path follows it.
\<close>

theorem public_search_paths_counterexample:
  "search_paths_of example_config (set_role_to_public example_config example_wrapper)
     = Inr [''public'', ''shared_extra'']
   \<and> search_paths_of example_config (set_role_to_public example_config example_wrapper)
     \<noteq> Inr [''public'']
   \<and> directives_issued
       (wrapper_cursor example_config (example_env 1 ExecOk)
          (set_role_to_public example_config example_wrapper))
     = [''SET search_path = public,shared_extra'']"
proof -
  have a: "search_paths_of example_config (set_role_to_public example_config example_wrapper)
             = Inr [''public'', ''shared_extra'']"
    by (simp add: search_paths_of_def set_role_to_public_def set_settings_role_def
          example_config_def check_role_name_def is_valid_role_name_def Let_def)
  have "directives_issued
          (wrapper_cursor example_config (example_env 1 ExecOk)
             (set_role_to_public example_config example_wrapper))
        = [directive [''public'', ''shared_extra'']]"
    using a by (simp add: wrapper_cursor_issues due_after_setters)
  with a show ?thesis by (simp add: directive_def)
qed

lemma search_paths_of_init:
  "public_role_name cfg \<noteq> [] \<Longrightarrow>
     search_paths_of cfg (init cfg settings)
       = Inr ([public_role_name cfg] @ EXTRA_SEARCH_PATHS cfg)"
  by (simp add: search_paths_of_def init_def set_role_to_public_def set_settings_role_def
        check_role_name_def is_valid_role_name_def Let_def)

lemma search_paths_of_ImproperlyConfigured:
  "search_paths_of cfg self = Inl ImproperlyConfigured \<longleftrightarrow> \<not> truthy_str (role_name self)"
  by (auto simp: search_paths_of_def check_role_name_def is_valid_role_name_def Let_def
        split: option.splits bool.splits)

lemma fst_wrapper_cursor_cases:
  "fst (wrapper_cursor cfg env self) =
     (if directive_due cfg self (super_cursor env) then
        (case search_paths_of cfg self of
           Inl e \<Rightarrow> Inl e
         | Inr ps \<Rightarrow> (if execute_outcome env = ExecOtherError then Inl EngineError
                      else Inr (super_cursor env)))
      else Inr (super_cursor env))"
  by (cases "execute_outcome env")
     (simp_all add: wrapper_cursor_def search_paths_of_previous_cursor Let_def split: sum.splits)

lemma search_path_set_after:
  "search_path_set (fst (snd (wrapper_cursor cfg env self))) =
     (if directive_due cfg self (super_cursor env) then
        (case search_paths_of cfg self of
           Inl e \<Rightarrow> search_path_set self
         | Inr ps \<Rightarrow> (case execute_outcome env of
                        ExecOk \<Rightarrow> Some True
                      | ExecOtherError \<Rightarrow> search_path_set self
                      | _ \<Rightarrow> Some False))
      else search_path_set self)"
  by (cases "execute_outcome env")
     (simp_all add: wrapper_cursor_def search_paths_of_previous_cursor Let_def split: sum.splits)

lemma wrapper_cursor_ok:
  assumes "directive_due cfg self (super_cursor env)" and "search_paths_of cfg self = Inr ps"
    and "execute_outcome env = ExecOk"
  shows "wrapper_cursor cfg env self =
           (Inr (super_cursor env),
            self\<lparr>previous_cursor := Some (super_cursor env), search_path_set := Some True\<rparr>,
            (if truthy_str (cursor_name env)
             then [Execute (connection_cursor env) (directive ps), Close (connection_cursor env)]
             else [Execute (super_cursor env) (directive ps)]))"
  using assms by (simp add: wrapper_cursor_def search_paths_of_previous_cursor Let_def)

lemma example_wrapper_paths:
  "search_paths_of example_config example_wrapper = Inr [''public'', ''shared_extra'']"
  using search_paths_of_init [of example_config Map.empty]
  by (simp add: example_wrapper_def example_config_def)

lemma example_wrapper_due: "directive_due example_config example_wrapper c"
  by (simp add: example_wrapper_def due_after_setters)

text \<open>
  C5, as the code has it. The constructor ends with \<open>set_role_to_public\<close>, so on a wrapper
  fresh from \<open>init\<close>, with a non-empty shared role name, the cursor method does not raise
  \<open>ImproperlyConfigured\<close> and issues the directive for the shared name and the extra
  paths. The method raises \<open>ImproperlyConfigured\<close> exactly when a directive is due and
  the role name is \<^verbatim>\<open>None\<close> or empty, and then it issues no directive.
\<close>

theorem routing_not_configured:
  "(public_role_name cfg \<noteq> [] \<longrightarrow>
      fst (wrapper_cursor cfg env (init cfg settings)) \<noteq> Inl ImproperlyConfigured
      \<and> directives_issued (wrapper_cursor cfg env (init cfg settings))
          = [directive ([public_role_name cfg] @ EXTRA_SEARCH_PATHS cfg)])
   \<and> (fst (wrapper_cursor cfg env self) = Inl ImproperlyConfigured
        \<longleftrightarrow> directive_due cfg self (super_cursor env) \<and> \<not> truthy_str (role_name self))
   \<and> (fst (wrapper_cursor cfg env self) = Inl ImproperlyConfigured
        \<longrightarrow> directives_issued (wrapper_cursor cfg env self) = [])"
proof -
  have a: "public_role_name cfg \<noteq> [] \<Longrightarrow>
      fst (wrapper_cursor cfg env (init cfg settings)) \<noteq> Inl ImproperlyConfigured
      \<and> directives_issued (wrapper_cursor cfg env (init cfg settings))
          = [directive ([public_role_name cfg] @ EXTRA_SEARCH_PATHS cfg)]"
    by (simp add: fst_wrapper_cursor_cases directives_issued_cases search_paths_of_init
          due_after_setters)
  have b: "fst (wrapper_cursor cfg env self) = Inl ImproperlyConfigured
        \<longleftrightarrow> directive_due cfg self (super_cursor env) \<and> \<not> truthy_str (role_name self)"
    using search_paths_of_ImproperlyConfigured [of cfg self]
    by (auto simp: fst_wrapper_cursor_cases split: sum.splits if_splits)
  have c: "fst (wrapper_cursor cfg env self) = Inl ImproperlyConfigured
        \<Longrightarrow> directives_issued (wrapper_cursor cfg env self) = []"
    by (auto simp: fst_wrapper_cursor_cases directives_issued_cases split: sum.splits if_splits)
  from a b c show ?thesis by blast
qed

theorem routing_not_configured_witness:
  "public_role_name example_config \<noteq> []
   \<and> fst (wrapper_cursor example_config (example_env 1 ExecOk) (init example_config Map.empty))
       \<noteq> Inl ImproperlyConfigured
   \<and> directives_issued
       (wrapper_cursor example_config (example_env 1 ExecOk) (init example_config Map.empty))
     = [''SET search_path = public,shared_extra'']
   \<and> directive_due example_config (set_role [] True example_wrapper)
       (super_cursor (example_env 1 ExecOk))
   \<and> \<not> truthy_str (role_name (set_role [] True example_wrapper))
   \<and> fst (wrapper_cursor example_config (example_env 1 ExecOk)
            (set_role [] True example_wrapper)) = Inl ImproperlyConfigured
   \<and> directives_issued
       (wrapper_cursor example_config (example_env 1 ExecOk) (set_role [] True example_wrapper))
     = []"
proof -
  have r: "\<not> truthy_str (role_name (set_role [] True example_wrapper))"
    by (simp add: set_role_def set_settings_role_def Let_def)
  have d: "directive_due example_config (set_role [] True example_wrapper)
             (super_cursor (example_env 1 ExecOk))"
    by (rule due_after_setters)
  have p: "public_role_name example_config \<noteq> []"
    by (simp add: example_config_def)
  show ?thesis
    using routing_not_configured
            [of example_config "example_env 1 ExecOk" Map.empty
               "set_role [] True example_wrapper"] r d p
    by (simp add: example_config_def directive_def)
qed

text \<open>
  A wrapper fresh from its constructor, on which the caller selected nothing: the cursor
  method returns the cursor and issues a directive.
\<close>

theorem fresh_wrapper_counterexample:
  "fst (wrapper_cursor example_config (example_env 1 ExecOk) example_wrapper) = Inr 1
   \<and> fst (wrapper_cursor example_config (example_env 1 ExecOk) example_wrapper)
       \<noteq> Inl ImproperlyConfigured
   \<and> directives_issued (wrapper_cursor example_config (example_env 1 ExecOk) example_wrapper)
       = [''SET search_path = public,shared_extra'']"
  by (simp add: fst_wrapper_cursor_cases directives_issued_cases example_wrapper_due
        example_wrapper_paths example_env_def directive_def)

lemma applied_wrapper_eq:
  "applied_wrapper = example_wrapper\<lparr>previous_cursor := Some 1, search_path_set := Some True\<rparr>"
proof -
  have "wrapper_cursor example_config (example_env 1 ExecOk) example_wrapper =
          (Inr 1, example_wrapper\<lparr>previous_cursor := Some 1, search_path_set := Some True\<rparr>,
           [Execute 1 (directive [''public'', ''shared_extra''])])"
    using wrapper_cursor_ok
            [of example_config example_wrapper "example_env 1 ExecOk"
               "[''public'', ''shared_extra'']"]
    by (simp add: example_wrapper_due example_wrapper_paths example_env_def)
  then show ?thesis by (simp add: applied_wrapper_def)
qed

lemma applied_wrapper_paths:
  "search_paths_of example_config applied_wrapper = Inr [''public'', ''shared_extra'']"
  by (simp add: applied_wrapper_def search_paths_of_after_call example_wrapper_paths)

text \<open>
  C6, as the code has it. When the cursor method issues the directive and \<^verbatim>\<open>execute\<close>
  raises one of the two classes the \<^verbatim>\<open>except\<close> clause names, a \<^verbatim>\<open>DatabaseError\<close> of
  Django or an \<^verbatim>\<open>InternalError\<close> of psycopg2, the method still returns the cursor,
  \<open>search_path_set\<close> is \<^verbatim>\<open>False\<close> afterwards, and the next call, whatever its cursor, name
  and engine answer, issues the same directive again.
\<close>

theorem directive_failure_swallowed:
  assumes "directives_issued (wrapper_cursor cfg env self) \<noteq> []"
    and "execute_outcome env = ExecDatabaseError \<or> execute_outcome env = ExecInternalError"
  shows "fst (wrapper_cursor cfg env self) = Inr (super_cursor env)
       \<and> search_path_set (fst (snd (wrapper_cursor cfg env self))) = Some False
       \<and> (\<forall>env'. directives_issued
                    (wrapper_cursor cfg env' (fst (snd (wrapper_cursor cfg env self))))
                   = directives_issued (wrapper_cursor cfg env self))"
proof -
  from assms(1) obtain ps where due: "directive_due cfg self (super_cursor env)"
    and ps: "search_paths_of cfg self = Inr ps"
    by (auto simp: directives_issued_cases split: if_splits sum.splits)
  let ?s = "fst (snd (wrapper_cursor cfg env self))"
  have r: "fst (wrapper_cursor cfg env self) = Inr (super_cursor env)"
    using due ps assms(2) by (auto simp: fst_wrapper_cursor_cases)
  have f: "search_path_set ?s = Some False"
    using due ps assms(2) by (auto simp: search_path_set_after)
  have "directives_issued (wrapper_cursor cfg env' ?s) = [directive ps]" for env'
  proof -
    have "directive_due cfg ?s (super_cursor env')"
      using f by (simp add: directive_due_def)
    moreover have "search_paths_of cfg ?s = Inr ps"
      using ps by (simp add: search_paths_of_after_call)
    ultimately show ?thesis by (rule wrapper_cursor_issues)
  qed
  moreover have "directives_issued (wrapper_cursor cfg env self) = [directive ps]"
    using due ps by (rule wrapper_cursor_issues)
  ultimately show ?thesis using r f by simp
qed

theorem directive_failure_swallowed_witness:
  "directives_issued (wrapper_cursor example_config (example_env 1 ExecDatabaseError)
      example_wrapper) = [''SET search_path = public,shared_extra'']
   \<and> fst (wrapper_cursor example_config (example_env 1 ExecDatabaseError) example_wrapper)
       = Inr 1
   \<and> search_path_set
       (fst (snd (wrapper_cursor example_config (example_env 1 ExecDatabaseError)
          example_wrapper))) = Some False
   \<and> directives_issued
       (wrapper_cursor example_config (example_env 1 ExecOk)
          (fst (snd (wrapper_cursor example_config (example_env 1 ExecDatabaseError)
             example_wrapper))))
     = [''SET search_path = public,shared_extra'']"
proof -
  have i: "directives_issued (wrapper_cursor example_config (example_env 1 ExecDatabaseError)
      example_wrapper) = [''SET search_path = public,shared_extra'']"
    by (simp add: directives_issued_cases example_wrapper_due example_wrapper_paths
          directive_def)
  have o: "execute_outcome (example_env 1 ExecDatabaseError) = ExecDatabaseError"
    by (simp add: example_env_def)
  show ?thesis
    using directive_failure_swallowed
            [of example_config "example_env 1 ExecDatabaseError" example_wrapper] i o
    by (simp add: example_env_def)
qed

text \<open>
  A rejection of another class is not swallowed. On the wrapper that has the directive
  applied on cursor 1, a call with a name on cursor 2 issues the directive on the raw
  cursor; the exception leaves the cursor method, \<open>search_path_set\<close> stays \<^verbatim>\<open>True\<close> with
  cursor 2 already recorded, and the next call on cursor 2 issues nothing.
\<close>

theorem uncaught_rejection_counterexample:
  "directives_issued (wrapper_cursor example_config rejecting_named_env applied_wrapper)
     = [''SET search_path = public,shared_extra'']
   \<and> fst (wrapper_cursor example_config rejecting_named_env applied_wrapper) = Inl EngineError
   \<and> fst (wrapper_cursor example_config rejecting_named_env applied_wrapper) \<noteq> Inr 2
   \<and> search_path_set
       (fst (snd (wrapper_cursor example_config rejecting_named_env applied_wrapper)))
     = Some True
   \<and> directives_issued
       (wrapper_cursor example_config (example_env 2 ExecOk)
          (fst (snd (wrapper_cursor example_config rejecting_named_env applied_wrapper))))
     = []"
proof -
  have due: "directive_due example_config applied_wrapper (super_cursor rejecting_named_env)"
    by (simp add: directive_due_def applied_wrapper_eq rejecting_named_env_def)
  have out: "execute_outcome rejecting_named_env = ExecOtherError"
    by (simp add: rejecting_named_env_def)
  let ?s = "fst (snd (wrapper_cursor example_config rejecting_named_env applied_wrapper))"
  have i: "directives_issued (wrapper_cursor example_config rejecting_named_env applied_wrapper)
             = [''SET search_path = public,shared_extra'']"
    using due by (simp add: directives_issued_cases applied_wrapper_paths directive_def)
  have r: "fst (wrapper_cursor example_config rejecting_named_env applied_wrapper)
             = Inl EngineError"
    using due out by (simp add: fst_wrapper_cursor_cases applied_wrapper_paths)
  have a: "search_path_set applied_wrapper = Some True"
    by (simp add: applied_wrapper_eq)
  have f: "search_path_set ?s = Some True"
    using due out a by (simp add: search_path_set_after applied_wrapper_paths)
  have p: "previous_cursor ?s = Some 2"
    using wrapper_cursor_previous [of example_config rejecting_named_env applied_wrapper]
    by (simp add: rejecting_named_env_def)
  have "\<not> directive_due example_config ?s (super_cursor (example_env 2 ExecOk))"
    using f p by (simp add: directive_due_def example_config_def example_env_def)
  then have n: "directives_issued (wrapper_cursor example_config (example_env 2 ExecOk) ?s) = []"
    by (simp add: directives_issued_cases)
  from i r f n show ?thesis by simp
qed

text \<open>
  C4. Take any wrapper whose role gives a search-path list, and two calls of the cursor
  method one after the other with nothing selected in between. If the cursor of the
  second call is another one than the cursor of the first, which the first call has
  recorded, the second call issues the directive for that list, whether the first call
  issued it or found it applied, and whether or not caching is enabled.
\<close>

theorem handle_change_reissues:
  assumes "search_paths_of cfg self = Inr ps"
    and "super_cursor env2 \<noteq> super_cursor env1"
  shows "previous_cursor (fst (snd (wrapper_cursor cfg env1 self))) = Some (super_cursor env1)
       \<and> directives_issued
           (wrapper_cursor cfg env2 (fst (snd (wrapper_cursor cfg env1 self))))
         = [directive ps]"
proof -
  let ?s = "fst (snd (wrapper_cursor cfg env1 self))"
  have prev: "previous_cursor ?s = Some (super_cursor env1)"
    by (rule wrapper_cursor_previous)
  with assms(2) have "directive_due cfg ?s (super_cursor env2)"
    by (simp add: directive_due_def)
  moreover have "search_paths_of cfg ?s = Inr ps"
    using assms(1) by (simp add: search_paths_of_after_call)
  ultimately have "directives_issued (wrapper_cursor cfg env2 ?s) = [directive ps]"
    by (rule wrapper_cursor_issues)
  with prev show ?thesis by simp
qed

theorem handle_change_reissues_witness:
  "limit_set_calls example_config
   \<and> search_paths_of example_config applied_wrapper = Inr [''public'', ''shared_extra'']
   \<and> super_cursor (example_env 2 ExecOk) \<noteq> super_cursor (example_env 1 ExecOk)
   \<and> directives_issued (wrapper_cursor example_config (example_env 1 ExecOk) applied_wrapper)
       = []
   \<and> directives_issued
       (wrapper_cursor example_config (example_env 2 ExecOk)
          (fst (snd (wrapper_cursor example_config (example_env 1 ExecOk) applied_wrapper))))
     = [''SET search_path = public,shared_extra'']
   \<and> directives_issued
       (wrapper_cursor example_config (example_env 2 ExecOk)
          (fst (snd (wrapper_cursor example_config (example_env 1 ExecOk) example_wrapper))))
     = [''SET search_path = public,shared_extra'']"
proof -
  have n: "super_cursor (example_env 2 ExecOk) \<noteq> super_cursor (example_env 1 ExecOk)"
    by (simp add: example_env_def)
  have "\<not> directive_due example_config applied_wrapper (super_cursor (example_env 1 ExecOk))"
    by (simp add: directive_due_def applied_wrapper_eq example_config_def example_env_def)
  then have h: "directives_issued
                  (wrapper_cursor example_config (example_env 1 ExecOk) applied_wrapper) = []"
    by (simp add: directives_issued_cases)
  show ?thesis
    using handle_change_reissues [OF applied_wrapper_paths n]
          handle_change_reissues [OF example_wrapper_paths n]
          applied_wrapper_paths n h
    by (simp add: example_config_def directive_def)
qed

section \<open>The connection wrapper: a run of calls on one cursor\<close>

lemma cursor_calls_hits:
  assumes "limit_set_calls cfg" and "search_path_set self = Some True"
    and "previous_cursor self = Some c"
    and "\<forall>env \<in> set envs. super_cursor env = c"
  shows "cursor_calls cfg envs self = (map (\<lambda>env. (Inr c, [])) envs, self)"
  using assms(4)
proof (induction envs)
  case Nil
  then show ?case by simp
next
  case (Cons env envs)
  have "\<not> directive_due cfg self (super_cursor env)"
    using assms(1-3) Cons.prems by (simp add: directive_due_def)
  then have "wrapper_cursor cfg env self = (Inr (super_cursor env), self, [])"
    by (rule wrapper_cursor_hit)
  with Cons show ?case by simp
qed

text \<open>
  C2. With caching enabled, take a wrapper on which a directive is due (as it is after
  every selection of a role) and whose role gives a search-path list, and a run of calls
  of the cursor method that all get the same cursor, with nothing selected in between. If
  the engine accepts the directive of the first call, then the first call returns the
  cursor and issues that one directive, and every later call returns the cursor and
  issues nothing.
\<close>

theorem directive_issued_once:
  assumes "limit_set_calls cfg"
    and "directive_due cfg self (super_cursor env)"
    and "search_paths_of cfg self = Inr ps"
    and "execute_outcome env = ExecOk"
    and "\<forall>env' \<in> set envs. super_cursor env' = super_cursor env"
  shows "map (\<lambda>(r, evs). (r, map snd (issued evs))) (fst (cursor_calls cfg (env # envs) self))
           = (Inr (super_cursor env), [directive ps])
             # map (\<lambda>env'. (Inr (super_cursor env), [])) envs"
proof -
  let ?s = "self\<lparr>previous_cursor := Some (super_cursor env), search_path_set := Some True\<rparr>"
  have "cursor_calls cfg envs ?s = (map (\<lambda>env'. (Inr (super_cursor env), [])) envs, ?s)"
    using assms(1,5) by (intro cursor_calls_hits) simp_all
  then show ?thesis
    using wrapper_cursor_ok [OF assms(2,3,4)] by (simp add: comp_def)
qed

theorem directive_issued_once_witness:
  "limit_set_calls example_config
   \<and> directive_due example_config (set_role ''acme'' True example_wrapper)
       (super_cursor (example_env 7 ExecOk))
   \<and> search_paths_of example_config (set_role ''acme'' True example_wrapper)
       = Inr [''acme'', ''public'', ''shared_extra'']
   \<and> map (\<lambda>(r, evs). (r, map snd (issued evs)))
       (fst (cursor_calls example_config
          [example_env 7 ExecOk, example_env 7 ExecOk, example_env 7 ExecDatabaseError]
          (set_role ''acme'' True example_wrapper)))
     = [(Inr 7, [''SET search_path = acme,public,shared_extra'']), (Inr 7, []), (Inr 7, [])]"
proof -
  have l: "limit_set_calls example_config"
    by (simp add: example_config_def)
  have d: "directive_due example_config (set_role ''acme'' True example_wrapper)
             (super_cursor (example_env 7 ExecOk))"
    by (rule due_after_setters)
  have p: "search_paths_of example_config (set_role ''acme'' True example_wrapper)
             = Inr [''acme'', ''public'', ''shared_extra'']"
    by (simp add: search_paths_of_def set_role_def set_settings_role_def example_config_def
          check_role_name_def is_valid_role_name_def Let_def)
  have o: "execute_outcome (example_env 7 ExecOk) = ExecOk"
    by (simp add: example_env_def)
  have s: "\<forall>env' \<in> set [example_env 7 ExecOk, example_env 7 ExecDatabaseError].
             super_cursor env' = super_cursor (example_env 7 ExecOk)"
    by (simp add: example_env_def)
  show ?thesis
    using directive_issued_once [OF l d p o s] l d p
    by (simp add: example_env_def directive_def)
qed

section \<open>Running a command over the tenants\<close>

lemma tenant_set_tenant: "tenant (set_tenant t inc c) = Some t"
  by (simp add: set_tenant_def set_settings_role_def Let_def)

lemma execute_command_returns:
  "\<not> job_raises (set_tenant t True connection) \<Longrightarrow>
     fst (execute_command job_raises t cn opts connection) = Inr ()
     \<and> fst (snd (execute_command job_raises t cn opts connection)) = set_tenant t True connection
     \<and> invoked (snd (snd (execute_command job_raises t cn opts connection))) = [Some t]"
  by (simp add: execute_command_def Let_def tenant_set_tenant)

lemma invoked_append: "invoked (xs @ ys) = invoked xs @ invoked ys"
  by (induction xs rule: invoked.induct) simp_all

lemma for_tenants_all:
  assumes "\<forall>c. \<not> job_raises c"
  shows "fst (for_tenants cfg job_raises cn opts ts connection) = Inr ()
       \<and> invoked (snd (snd (for_tenants cfg job_raises cn opts ts connection)))
           = map Some
               (filter (\<lambda>t. \<not> (skip_public opts \<and> tenant_role_name t = public_role_name cfg))
                  ts)"
proof (induction ts arbitrary: connection)
  case Nil
  then show ?case by simp
next
  case (Cons t ts)
  show ?case
  proof (cases "skip_public opts \<and> tenant_role_name t = public_role_name cfg")
    case True
    then show ?thesis using Cons.IH [of connection] by simp
  next
    case False
    obtain r c evs where ex: "execute_command job_raises t cn opts connection = (r, c, evs)"
      by (cases "execute_command job_raises t cn opts connection") auto
    have "\<not> job_raises (set_tenant t True connection)" using assms by simp
    with execute_command_returns [of job_raises t connection cn opts] ex
    have r: "r = Inr ()" and evs: "invoked evs = [Some t]" by simp_all
    obtain r' c' evs' where ft: "for_tenants cfg job_raises cn opts ts c = (r', c', evs')"
      by (cases "for_tenants cfg job_raises cn opts ts c") auto
    from Cons.IH [of c] ft have "r' = Inr ()"
      and "invoked evs'
             = map Some
                 (filter (\<lambda>t. \<not> (skip_public opts \<and> tenant_role_name t = public_role_name cfg))
                    ts)"
      by simp_all
    with False ex r evs ft show ?thesis
      by (simp add: invoked_append)
  qed
qed

text \<open>
  C8. With no role name given, \<open>skip_public\<close> set and a command that does not raise,
  \<open>handle\<close> returns normally and has called the command on exactly the tenants of the
  directory whose role name is not the shared one, in the directory's order.
\<close>

theorem all_tenants_skip_public:
  assumes "\<not> truthy_str (opt_role_name opts)" and "skip_public opts"
    and "\<forall>c. \<not> job_raises c"
  shows "fst (handle cfg job_raises cn directory opts connection) = Inr ()
       \<and> invoked (snd (snd (handle cfg job_raises cn directory opts connection)))
           = map Some (filter (\<lambda>t. tenant_role_name t \<noteq> public_role_name cfg) directory)"
  using assms for_tenants_all [of job_raises cfg cn opts directory connection]
  by (simp add: handle_def)

theorem all_tenants_skip_public_witness:
  "\<not> truthy_str (opt_role_name \<lparr>opt_role_name = None, skip_public = True, verbosity = 1\<rparr>)
   \<and> skip_public \<lparr>opt_role_name = None, skip_public = True, verbosity = 1\<rparr>
   \<and> invoked (snd (snd (handle example_config (\<lambda>c. False) ''migrate''
       [TenantModel ''public'', TenantModel ''acme'', TenantModel ''globex'']
       \<lparr>opt_role_name = None, skip_public = True, verbosity = 1\<rparr> example_wrapper)))
     = [Some (TenantModel ''acme''), Some (TenantModel ''globex'')]"
  using all_tenants_skip_public
          [of "\<lparr>opt_role_name = None, skip_public = True, verbosity = 1\<rparr>" "\<lambda>c. False"
             example_config "''migrate''"
             "[TenantModel ''public'', TenantModel ''acme'', TenantModel ''globex'']"
             example_wrapper]
  by (simp add: example_config_def)

lemma no_set_schema_to_public:
  "call_method ''set_schema_to_public'' cfg connection = Inl AttributeError"
  by (simp add: call_method_def wrapper_methods_def)

lemma set_role_to_public_is_method:
  "call_method ''set_role_to_public'' cfg connection = Inr (set_role_to_public cfg connection)"
  by (simp add: call_method_def wrapper_methods_def)

text \<open>
  C9. With the role name \<open>acme\<close> given and \<open>acme\<close> in the directory, \<open>handle\<close> calls
  \<^verbatim>\<open>connection.set_schema_to_public()\<close>; the wrapper's method is named
  \<^verbatim>\<open>set_role_to_public\<close>, so the call raises \<^verbatim>\<open>AttributeError\<close>: the connection is not
  switched, the tenant is not looked up and the command is not called.
\<close>

theorem single_tenant_mode_attribute_error:
  "handle cfg job_raises cn [TenantModel ''public'', TenantModel ''acme'']
      \<lparr>opt_role_name = Some ''acme'', skip_public = False, verbosity = 1\<rparr> connection
     = (Inl AttributeError, connection, [])
   \<and> objects_get [TenantModel ''public'', TenantModel ''acme''] ''acme''
     = Inr (TenantModel ''acme'')"
  by (simp add: handle_def no_set_schema_to_public objects_get_def)

end
